theory Spec2Isabelle
  imports Complex_Main
begin

section \<open>Python string operations used by the two scripts\<close>

text \<open>
  Python \<open>str\<close> values are modelled as \<open>string\<close>, one \<open>char\<close> per character,
  for ASCII text: case mapping and whitespace are the ASCII ones.
\<close>

definition is_upper :: "char \<Rightarrow> bool" where
  "is_upper c = (c \<in> set ''ABCDEFGHIJKLMNOPQRSTUVWXYZ'')"

definition lower_char :: "char \<Rightarrow> char" where
  "lower_char c =
     (case map_of (zip ''ABCDEFGHIJKLMNOPQRSTUVWXYZ'' ''abcdefghijklmnopqrstuvwxyz'') c of
        Some d \<Rightarrow> d
      | None \<Rightarrow> c)"

text \<open>\<open>s.lower()\<close>\<close>

definition py_lower :: "string \<Rightarrow> string" where
  "py_lower s = map lower_char s"

text \<open>\<open>sub in s\<close> for two strings: \<open>sub\<close> occurs in \<open>s\<close> as a contiguous run.\<close>

fun py_contains :: "string \<Rightarrow> string \<Rightarrow> bool" where
  "py_contains sub [] = (sub = [])"
| "py_contains sub (c # cs) = (take (length sub) (c # cs) = sub \<or> py_contains sub cs)"

text \<open>\<open>s.split(sep)\<close> for a one-character separator; the result is never empty.\<close>

fun split_on :: "char \<Rightarrow> string \<Rightarrow> string \<Rightarrow> string list" where
  "split_on sep cur [] = [rev cur]"
| "split_on sep cur (c # cs) =
     (if c = sep then rev cur # split_on sep [] cs else split_on sep (c # cur) cs)"

definition py_split :: "char \<Rightarrow> string \<Rightarrow> string list" where
  "py_split sep s = split_on sep [] s"

text \<open>The characters \<open>str.isspace\<close> accepts in ASCII.\<close>

definition is_space :: "char \<Rightarrow> bool" where
  "is_space c =
     (c \<in> set [CHR 0x09, CHR 0x0A, CHR 0x0B, CHR 0x0C, CHR 0x0D,
                CHR 0x1C, CHR 0x1D, CHR 0x1E, CHR 0x1F, CHR 0x20])"

text \<open>\<open>s.split()\<close>: runs of whitespace separate the words, none of which is empty.\<close>

fun split_ws :: "string \<Rightarrow> string \<Rightarrow> string list" where
  "split_ws cur [] = (if cur = [] then [] else [rev cur])"
| "split_ws cur (c # cs) =
     (if is_space c then (if cur = [] then split_ws [] cs else rev cur # split_ws [] cs)
      else split_ws (c # cur) cs)"

definition py_split_ws :: "string \<Rightarrow> string list" where
  "py_split_ws s = split_ws [] s"

text \<open>\<open>s.strip()\<close> and \<open>s.rstrip(ch)\<close>\<close>

definition py_strip :: "string \<Rightarrow> string" where
  "py_strip s = rev (dropWhile is_space (rev (dropWhile is_space s)))"

definition py_rstrip :: "char \<Rightarrow> string \<Rightarrow> string" where
  "py_rstrip ch s = rev (dropWhile (\<lambda>c. c = ch) (rev s))"

text \<open>
  \<open>s.replace(old, new)\<close>: occurrences of \<open>old\<close> are replaced from the left, without
  overlap. With an empty \<open>old\<close>, Python puts \<open>new\<close> before every character and at the end.
\<close>

function py_replace :: "string \<Rightarrow> string \<Rightarrow> string \<Rightarrow> string" where
  "py_replace old new s =
     (if old = [] then new @ concat (map (\<lambda>c. c # new) s)
      else if s = [] then []
      else if take (length old) s = old then new @ py_replace old new (drop (length old) s)
      else hd s # py_replace old new (tl s))"
  by pat_completeness auto
termination
  by (relation "measure (\<lambda>(old, new, s). length s)") auto

declare py_replace.simps [simp del]

text \<open>
  \<open>int(s)\<close> on an ASCII string: surrounding whitespace is dropped, one sign is allowed,
  and the digits may be grouped by single underscores. \<open>None\<close> stands for ValueError.
\<close>

definition is_digit :: "char \<Rightarrow> bool" where
  "is_digit c = (c \<in> set ''0123456789'')"

definition digit_val :: "char \<Rightarrow> int" where
  "digit_val c = int (of_char c) - 48"

definition digits_val :: "string \<Rightarrow> int" where
  "digits_val ds = foldl (\<lambda>acc c. 10 * acc + digit_val c) 0 ds"

definition py_digits :: "string \<Rightarrow> int option" where
  "py_digits s =
     (let groups = py_split (CHR ''_'') s in
      if list_all (\<lambda>g. g \<noteq> [] \<and> list_all is_digit g) groups
      then Some (digits_val (concat groups)) else None)"

definition py_int :: "string \<Rightarrow> int option" where
  "py_int s =
     (case py_strip s of
        [] \<Rightarrow> None
      | c # cs \<Rightarrow>
          if c = CHR ''-'' then map_option uminus (py_digits cs)
          else if c = CHR ''+'' then py_digits cs
          else py_digits (c # cs))"

section \<open>Health evaluator (scripts/deployment/health\_check.py)\<close>

datatype HealthStatus = HEALTHY | DEGRADED | UNHEALTHY | UNKNOWN

text \<open>
  A check result, with the two fields the evaluator reads back: the name of the check and
  its status. The message and the details mapping are display text.
\<close>

record CheckResult =
  check_name :: string
  status :: HealthStatus

text \<open>\<open>sum(1 for r in self.results if r.status == s)\<close>\<close>

definition count_status :: "HealthStatus \<Rightarrow> CheckResult list \<Rightarrow> nat" where
  "count_status s results = length (filter (\<lambda>r. status r = s) results)"

definition calculate_overall_status :: "CheckResult list \<Rightarrow> HealthStatus" where
  "calculate_overall_status results =
     (let unhealthy_count = count_status UNHEALTHY results;
          degraded_count = count_status DEGRADED results;
          unknown_count = count_status UNKNOWN results
      in if unhealthy_count > 0 then UNHEALTHY
         else if degraded_count > 0 then DEGRADED
         else if unknown_count > 0 then UNKNOWN
         else HEALTHY)"

text \<open>
  What the outside world answers to a check. A Python exception is described by the
  classes named in the \<open>except\<close> clauses of the script that it is an instance of; one
  exception can be an instance of several (requests' ConnectTimeout derives from both its
  ConnectionError and its Timeout). All of them are instances of \<open>Exception\<close>.
\<close>

datatype exc_class = RequestsConnectionError | RequestsTimeout | TimeoutExpired | FileNotFoundError

datatype py_exception = PyException "exc_class list"

fun isinstance :: "py_exception \<Rightarrow> exc_class \<Rightarrow> bool" where
  "isinstance (PyException classes) c = (c \<in> set classes)"

text \<open>\<open>requests.get\<close>: a response with its status code, or an exception.\<close>

datatype http_outcome = Response int | HttpRaised py_exception

text \<open>\<open>subprocess.run\<close>: a completed process with return code and stdout, or an exception.\<close>

datatype proc_outcome = Completed int string | ProcRaised py_exception

definition append_result :: "CheckResult list \<Rightarrow> string \<Rightarrow> HealthStatus \<Rightarrow> CheckResult list" where
  "append_result results name st = results @ [\<lparr>check_name = name, status = st\<rparr>]"

definition check_web_interface :: "CheckResult list \<Rightarrow> http_outcome \<Rightarrow> CheckResult list" where
  "check_web_interface results outcome =
     (case outcome of
        Response status_code \<Rightarrow>
          if status_code = 200 then append_result results ''Web Interface'' HEALTHY
          else append_result results ''Web Interface'' DEGRADED
      | HttpRaised e \<Rightarrow>
          if isinstance e RequestsConnectionError
          then append_result results ''Web Interface'' UNHEALTHY
          else if isinstance e RequestsTimeout
          then append_result results ''Web Interface'' DEGRADED
          else append_result results ''Web Interface'' UNHEALTHY)"

definition database_handler :: "CheckResult list \<Rightarrow> py_exception \<Rightarrow> CheckResult list" where
  "database_handler results e =
     (if isinstance e TimeoutExpired then append_result results ''Database Connection'' DEGRADED
      else if isinstance e FileNotFoundError
      then append_result results ''Database Connection'' UNKNOWN
      else append_result results ''Database Connection'' UNKNOWN)"

text \<open>The second outcome is that of the retry, run only when the first return code is not 0.\<close>

definition check_database_connection ::
  "CheckResult list \<Rightarrow> proc_outcome \<Rightarrow> proc_outcome \<Rightarrow> CheckResult list" where
  "check_database_connection results first retry =
     (case first of
        ProcRaised e \<Rightarrow> database_handler results e
      | Completed returncode out \<Rightarrow>
          if returncode = 0 then append_result results ''Database Connection'' HEALTHY
          else (case retry of
                  ProcRaised e \<Rightarrow> database_handler results e
                | Completed returncode2 out2 \<Rightarrow>
                    if returncode2 = 0
                    then append_result results ''Database Connection'' HEALTHY
                    else append_result results ''Database Connection'' DEGRADED))"

definition check_admin_console :: "CheckResult list \<Rightarrow> http_outcome \<Rightarrow> CheckResult list" where
  "check_admin_console results outcome =
     (case outcome of
        Response status_code \<Rightarrow>
          if status_code \<in> set [200, 302, 401]
          then append_result results ''Admin Console'' HEALTHY
          else append_result results ''Admin Console'' DEGRADED
      | HttpRaised e \<Rightarrow> append_result results ''Admin Console'' DEGRADED)"

text \<open>\<open>version\<close> is \<open>self.config.get('version', '')\<close>, a string.\<close>

definition check_process_running ::
  "string \<Rightarrow> CheckResult list \<Rightarrow> proc_outcome \<Rightarrow> CheckResult list" where
  "check_process_running version results outcome =
     (case outcome of
        ProcRaised e \<Rightarrow> append_result results ''Process Status'' UNKNOWN
      | Completed returncode out \<Rightarrow>
          (let joget_processes =
                 filter (\<lambda>line. py_contains ''joget'' (py_lower line) \<and> py_contains version line)
                   (py_split (CHR 0x0A) out)
           in if joget_processes \<noteq> [] then append_result results ''Process Status'' HEALTHY
              else append_result results ''Process Status'' UNHEALTHY))"

text \<open>
  The disk check reads the used percentage from the second line of the output of
  \<open>df -h /\<close>; a ValueError of \<open>int\<close> is caught like every other exception.
\<close>

definition check_disk_space :: "CheckResult list \<Rightarrow> proc_outcome \<Rightarrow> CheckResult list" where
  "check_disk_space results outcome =
     (case outcome of
        ProcRaised e \<Rightarrow> append_result results ''Disk Space'' UNKNOWN
      | Completed returncode out \<Rightarrow>
          (let lines = py_split (CHR 0x0A) (py_strip out) in
           if length lines \<ge> 2 then
             (let parts = py_split_ws (lines ! 1) in
              if length parts \<ge> 5 then
                (case py_int (py_rstrip (CHR ''%'') (parts ! 4)) of
                   None \<Rightarrow> append_result results ''Disk Space'' UNKNOWN
                 | Some used_percent \<Rightarrow>
                     if used_percent < 80 then append_result results ''Disk Space'' HEALTHY
                     else if used_percent < 90 then append_result results ''Disk Space'' DEGRADED
                     else append_result results ''Disk Space'' UNHEALTHY)
              else append_result results ''Disk Space'' UNKNOWN)
           else append_result results ''Disk Space'' UNKNOWN))"

text \<open>
  The memory check computes \<open>int((used / total) * 100)\<close> in floating point. The
  parameter \<open>percent\<close> stands for that expression; \<open>None\<close> is an exception raised by it
  (a division by zero, an overflow).
\<close>

definition check_memory_usage ::
  "(int \<Rightarrow> int \<Rightarrow> int option) \<Rightarrow> CheckResult list \<Rightarrow> proc_outcome \<Rightarrow> CheckResult list" where
  "check_memory_usage percent results outcome =
     (case outcome of
        ProcRaised e \<Rightarrow>
          if isinstance e FileNotFoundError then append_result results ''Memory Usage'' UNKNOWN
          else append_result results ''Memory Usage'' UNKNOWN
      | Completed returncode out \<Rightarrow>
          (let lines = py_split (CHR 0x0A) (py_strip out) in
           if length lines \<ge> 2 then
             (let parts = py_split_ws (lines ! 1) in
              if length parts \<ge> 3 then
                (case py_int (parts ! 1) of
                   None \<Rightarrow> append_result results ''Memory Usage'' UNKNOWN
                 | Some mem_total \<Rightarrow>
                     (case py_int (parts ! 2) of
                        None \<Rightarrow> append_result results ''Memory Usage'' UNKNOWN
                      | Some mem_used \<Rightarrow>
                          (case percent mem_used mem_total of
                             None \<Rightarrow> append_result results ''Memory Usage'' UNKNOWN
                           | Some used_percent \<Rightarrow>
                               if used_percent < 80
                               then append_result results ''Memory Usage'' HEALTHY
                               else if used_percent < 90
                               then append_result results ''Memory Usage'' DEGRADED
                               else append_result results ''Memory Usage'' UNHEALTHY)))
              else append_result results ''Memory Usage'' UNKNOWN)
           else append_result results ''Memory Usage'' UNKNOWN))"

text \<open>The answers of the outside world to one run of the six checks.\<close>

record probes =
  web_get :: http_outcome
  mysql_first :: proc_outcome
  mysql_retry :: proc_outcome
  admin_get :: http_outcome
  ps_aux :: proc_outcome
  df_root :: proc_outcome
  free_m :: proc_outcome

definition run_all_checks ::
  "string \<Rightarrow> (int \<Rightarrow> int \<Rightarrow> int option) \<Rightarrow> probes \<Rightarrow> CheckResult list
     \<Rightarrow> HealthStatus \<times> CheckResult list" where
  "run_all_checks version percent env results =
     (let r1 = check_web_interface results (web_get env);
          r2 = check_database_connection r1 (mysql_first env) (mysql_retry env);
          r3 = check_admin_console r2 (admin_get env);
          r4 = check_process_running version r3 (ps_aux env);
          r5 = check_disk_space r4 (df_root env);
          r6 = check_memory_usage percent r5 (free_m env)
      in (calculate_overall_status r6, r6))"

text \<open>
  The used percentage that the disk check reads from the output of \<open>df -h /\<close>: the fifth
  word of the second line, without its trailing percent signs, as an integer. \<open>None\<close>
  when the tool failed or its output has no such number.
\<close>

definition disk_used_percent :: "proc_outcome \<Rightarrow> int option" where
  "disk_used_percent outcome =
     (case outcome of
        ProcRaised e \<Rightarrow> None
      | Completed returncode out \<Rightarrow>
          (case py_split (CHR 0x0A) (py_strip out) of
             header # row # rest \<Rightarrow>
               (case py_split_ws row of
                  fs # sz # used # avail # pct # others \<Rightarrow> py_int (py_rstrip (CHR ''%'') pct)
                | _ \<Rightarrow> None)
           | _ \<Rightarrow> None))"

section \<open>MDM dependency scanner (scripts/migration/analyze\_mdm\_usage.py)\<close>

text \<open>
  A value read by \<open>json.load\<close>. A number is its exact value (the scanner never
  computes with one; the non-finite floats that \<open>json.load\<close> also accepts are left
  out); an object is the list of its members in order, with distinct keys, as the
  \<open>dict\<close> read from it.
\<close>

datatype json =
    JNull
  | JBool bool
  | JNum rat
  | JStr string
  | JArr "json list"
  | JObj "(string \<times> json) list"

text \<open>The exceptions that leave the scanner, and the exit of \<open>sys.exit\<close>.\<close>

datatype error = SystemExit int | TypeError | AttributeError | JSONDecodeError

text \<open>Sequencing of steps that may raise.\<close>

definition and_then :: "error + 'a \<Rightarrow> ('a \<Rightarrow> error + 'b) \<Rightarrow> error + 'b" where
  "and_then m f = (case m of Inl e \<Rightarrow> Inl e | Inr x \<Rightarrow> f x)"

text \<open>\<open>k in d\<close>, \<open>d.get(k, dflt)\<close> and \<open>d[k] = v\<close> on a \<open>dict\<close> with string keys.\<close>

definition has_key :: "(string \<times> 'v) list \<Rightarrow> string \<Rightarrow> bool" where
  "has_key d k = (map_of d k \<noteq> None)"

definition dict_get :: "(string \<times> 'v) list \<Rightarrow> string \<Rightarrow> 'v \<Rightarrow> 'v" where
  "dict_get d k dflt = (case map_of d k of Some v \<Rightarrow> v | None \<Rightarrow> dflt)"

fun dict_set :: "string \<Rightarrow> 'v \<Rightarrow> (string \<times> 'v) list \<Rightarrow> (string \<times> 'v) list" where
  "dict_set k v [] = [(k, v)]"
| "dict_set k v ((k', v') # rest) =
     (if k' = k then (k, v) # rest else (k', v') # dict_set k v rest)"

text \<open>The truth value of a JSON value in a condition.\<close>

fun py_truthy :: "json \<Rightarrow> bool" where
  "py_truthy JNull = False"
| "py_truthy (JBool b) = b"
| "py_truthy (JNum n) = (n \<noteq> 0)"
| "py_truthy (JStr s) = (s \<noteq> [])"
| "py_truthy (JArr xs) = (xs \<noteq> [])"
| "py_truthy (JObj d) = (d \<noteq> [])"

text \<open>\<open>len(v)\<close> and \<open>for child in v\<close>: a string yields its characters, a dict its keys.\<close>

fun py_len :: "json \<Rightarrow> error + nat" where
  "py_len (JStr s) = Inr (length s)"
| "py_len (JArr xs) = Inr (length xs)"
| "py_len (JObj d) = Inr (length d)"
| "py_len _ = Inl TypeError"

fun py_iter :: "json \<Rightarrow> error + json list" where
  "py_iter (JStr s) = Inr (map (\<lambda>c. JStr [c]) s)"
| "py_iter (JArr xs) = Inr xs"
| "py_iter (JObj d) = Inr (map (\<lambda>kv. JStr (fst kv)) d)"
| "py_iter _ = Inl TypeError"

record MDMDependency =
  form_id :: json
  form_name :: json
  field_id :: json
  field_label :: json
  field_type :: string
  options_source :: string
  options_config :: json
  has_ajax_cascade :: bool
  cascade_config :: "json option"

record statistics_dict =
  by_field_type :: "(string \<times> nat) list"
  by_options_source :: "(string \<times> nat) list"
  ajax_cascade_count :: nat
  unique_forms_with_mdm :: nat

record AnalysisReport =
  application_id :: json
  application_name :: json
  total_forms :: nat
  total_mdm_fields :: nat
  dependencies :: "MDMDependency list"
  warnings :: "string list"
  statistics :: statistics_dict

text \<open>The attributes of a \<open>JogetAppAnalyzer\<close> that the scan reads and writes.\<close>

record analyzer =
  self_dependencies :: "MDMDependency list"
  self_warnings :: "string list"
  self_app_data :: json

definition new_analyzer :: analyzer where
  "new_analyzer = \<lparr>self_dependencies = [], self_warnings = [], self_app_data = JObj []\<rparr>"

definition MDM_FIELD_TYPES :: "string set" where
  "MDM_FIELD_TYPES = {''selectBox'', ''checkBox'', ''radio'', ''multiselect''}"

definition EXTERNAL_BINDERS :: "(string \<times> string) list" where
  "EXTERNAL_BINDERS =
     [(''formOptions'', ''Form Options Binder''),
      (''jdbcOptions'', ''JDBC Options Binder''),
      (''restOptions'', ''REST Options Binder'')]"

definition get_forms :: "analyzer \<Rightarrow> error + (json \<times> analyzer)" where
  "get_forms self =
     (let not_found = self\<lparr>self_warnings := self_warnings self
                            @ [''Could not find forms in application structure'']\<rparr>
      in case self_app_data self of
           JObj app_data \<Rightarrow>
             if has_key app_data ''forms'' then Inr (dict_get app_data ''forms'' JNull, self)
             else if has_key app_data ''formDefinitionList''
             then Inr (dict_get app_data ''formDefinitionList'' JNull, self)
             else Inr (JArr [], not_found)
         | JArr items \<Rightarrow>
             if JStr ''forms'' \<in> set items then Inl TypeError
             else if JStr ''formDefinitionList'' \<in> set items then Inl TypeError
             else Inr (JArr [], not_found)
         | JStr text \<Rightarrow>
             if py_contains ''forms'' text then Inl TypeError
             else if py_contains ''formDefinitionList'' text then Inl TypeError
             else Inr (JArr [], not_found)
         | _ \<Rightarrow> Inl TypeError)"

definition get_field_type :: "string \<Rightarrow> string" where
  "get_field_type class_name =
     (if CHR ''.'' \<in> set class_name
      then py_replace ''SelectBox'' ''selectBox'' (last (py_split (CHR ''.'') class_name))
      else class_name)"

text \<open>
  The tag of a node whose \<open>className\<close> is any JSON value. One that is not a string raises:
  in \<open>'.' in class_name\<close>, in \<open>class_name.split\<close>, or in the membership test of the
  tag in \<open>MDM_FIELD_TYPES\<close> (a list or a dict is not hashable).
\<close>

fun node_field_type :: "json \<Rightarrow> error + string" where
  "node_field_type (JStr class_name) = Inr (get_field_type class_name)"
| "node_field_type (JArr items) =
     (if JStr ''.'' \<in> set items then Inl AttributeError else Inl TypeError)"
| "node_field_type (JObj d) = (if has_key d ''.'' then Inl AttributeError else Inl TypeError)"
| "node_field_type _ = Inl TypeError"

fun identify_loop :: "(string \<times> string) list \<Rightarrow> string \<Rightarrow> string" where
  "identify_loop [] binder_class = ''unknown''"
| "identify_loop ((key, name) # rest) binder_class =
     (if py_contains key (py_lower binder_class) then key else identify_loop rest binder_class)"

definition identify_binder_type :: "string \<Rightarrow> string" where
  "identify_binder_type binder_class = identify_loop EXTERNAL_BINDERS binder_class"

text \<open>
  The options of a candidate field: \<open>(options_config, options_source)\<close> as they stand
  after the two \<open>if\<close> statements on \<open>options\<close> and \<open>optionsBinder\<close>. A binder
  \<open>className\<close> that is not a string has no \<open>lower\<close>.
\<close>

definition field_options :: "(string \<times> json) list \<Rightarrow> error + (json \<times> string)" where
  "field_options properties =
     (let static = (if has_key properties ''options''
                    then (dict_get properties ''options'' JNull, ''static'')
                    else (JObj [], ''static''))
      in case map_of properties ''optionsBinder'' of
           Some (JObj binder_config) \<Rightarrow>
             (case dict_get binder_config ''className'' (JStr '''') of
                JStr binder_class \<Rightarrow>
                  Inr (dict_get binder_config ''properties'' (JObj []),
                       identify_binder_type binder_class)
              | _ \<Rightarrow> Inl AttributeError)
         | _ \<Rightarrow> Inr static)"

definition field_has_ajax_cascade :: "(string \<times> json) list \<Rightarrow> bool" where
  "field_has_ajax_cascade properties =
     (py_truthy (dict_get properties ''controlField'' JNull)
      \<or> py_truthy (dict_get properties ''cascadeOptions'' JNull))"

definition field_cascade_config :: "(string \<times> json) list \<Rightarrow> json" where
  "field_cascade_config properties =
     JObj [(''controlField'', dict_get properties ''controlField'' JNull),
           (''cascadeOptions'', dict_get properties ''cascadeOptions'' (JObj []))]"

definition analyze_mdm_field ::
  "MDMDependency list \<Rightarrow> (string \<times> json) list \<Rightarrow> json \<Rightarrow> json \<Rightarrow> string
     \<Rightarrow> error + MDMDependency list" where
  "analyze_mdm_field deps element fid fname ftype =
     (case dict_get element ''properties'' (JObj []) of
        JObj properties \<Rightarrow>
          and_then (field_options properties) (\<lambda>(config, source).
            let cascade = field_has_ajax_cascade properties in
            if source \<noteq> ''static'' \<or> cascade
            then Inr (deps @
                   [\<lparr>form_id = fid, form_name = fname,
                     field_id = dict_get properties ''id'' (JStr ''unknown''),
                     field_label = dict_get properties ''label'' (JStr ''unknown''),
                     field_type = ftype,
                     options_source = source,
                     options_config = config,
                     has_ajax_cascade = cascade,
                     cascade_config =
                       (if cascade then Some (field_cascade_config properties) else None)\<rparr>])
            else Inr deps)
      | _ \<Rightarrow> Inl AttributeError)"

text \<open>The part of \<open>_search_elements\<close> that looks at the node itself.\<close>

definition search_node ::
  "MDMDependency list \<Rightarrow> (string \<times> json) list \<Rightarrow> json \<Rightarrow> json \<Rightarrow> error + MDMDependency list" where
  "search_node deps element fid fname =
     and_then (node_field_type (dict_get element ''className'' (JStr ''''))) (\<lambda>ftype.
       if ftype \<in> MDM_FIELD_TYPES then analyze_mdm_field deps element fid fname ftype
       else Inr deps)"

text \<open>The two lists of children that \<open>_search_elements\<close> iterates over.\<close>

definition child_elements :: "(string \<times> json) list \<Rightarrow> error + json list" where
  "child_elements element =
     (if has_key element ''elements'' then py_iter (dict_get element ''elements'' (JArr []))
      else Inr [])"

definition nested_elements :: "(string \<times> json) list \<Rightarrow> error + json list" where
  "nested_elements element =
     (case map_of element ''properties'' of
        Some (JObj props) \<Rightarrow>
          if has_key props ''elements'' then py_iter (dict_get props ''elements'' JNull) else Inr []
      | _ \<Rightarrow> Inr [])"

text \<open>
  The recursive walk of \<open>_search_elements\<close> over a node, its \<open>elements\<close> and the
  \<open>elements\<close> nested in its \<open>properties\<close>, with \<open>search_list\<close> for the two
  \<open>for\<close> loops. It ends because every child weighs less than its parent.
\<close>

fun weight :: "json \<Rightarrow> nat" where
  "weight (JStr s) = length s"
| "weight (JArr xs) = Suc (sum_list (map weight xs))"
| "weight (JObj d) = Suc (sum_list (map (\<lambda>kv. length (fst kv) + weight (snd kv)) d))"
| "weight _ = 0"

lemma and_then_cong [fundef_cong]:
  "m = m' \<Longrightarrow> (\<And>x. m' = Inr x \<Longrightarrow> f x = f' x) \<Longrightarrow> and_then m f = and_then m' f'"
  by (auto simp: and_then_def split: sum.splits)

function (sequential) search_elements ::
    "MDMDependency list \<Rightarrow> json \<Rightarrow> json \<Rightarrow> json \<Rightarrow> error + MDMDependency list"
  and search_list ::
    "MDMDependency list \<Rightarrow> json list \<Rightarrow> json \<Rightarrow> json \<Rightarrow> error + MDMDependency list" where
  "search_elements deps (JObj element) fid fname =
     and_then (search_node deps element fid fname) (\<lambda>deps1.
     and_then (child_elements element) (\<lambda>children.
     and_then (search_list deps1 children fid fname) (\<lambda>deps2.
     and_then (nested_elements element) (\<lambda>nested.
     search_list deps2 nested fid fname))))"
| "search_elements deps other fid fname = Inr deps"
| "search_list deps [] fid fname = Inr deps"
| "search_list deps (child # rest) fid fname =
     and_then (search_elements deps child fid fname) (\<lambda>deps1. search_list deps1 rest fid fname)"
  by pat_completeness auto

lemma weight_map_of: "map_of d k = Some v \<Longrightarrow> weight v < weight (JObj d)"
  by (induction d) (auto split: if_splits)

lemma weight_py_iter: "py_iter v = Inr cs \<Longrightarrow> sum_list (map weight cs) \<le> weight v"
proof (cases v)
  case (JStr s)
  assume "py_iter v = Inr cs"
  with JStr have "cs = map (\<lambda>c. JStr [c]) s" by simp
  then have "sum_list (map weight cs) = length s"
    by (simp add: comp_def sum_list_triv)
  with JStr show ?thesis by simp
next
  case (JObj d)
  assume "py_iter v = Inr cs"
  with JObj have cs: "cs = map (\<lambda>kv. JStr (fst kv)) d" by simp
  have "sum_list (map (\<lambda>kv. length (fst kv)) d)
          \<le> sum_list (map (\<lambda>kv. length (fst kv) + weight (snd kv)) d)"
    by (rule sum_list_mono) simp
  with JObj cs show ?thesis by (simp add: comp_def)
qed auto

lemma weight_child_elements:
  "child_elements node = Inr cs \<Longrightarrow> sum_list (map weight cs) < weight (JObj node)"
  apply (auto simp: child_elements_def has_key_def dict_get_def split: if_splits option.splits)
  apply (drule weight_py_iter)
  apply (drule weight_map_of)
  apply simp
  done

lemma weight_nested_elements:
  "nested_elements node = Inr cs \<Longrightarrow> sum_list (map weight cs) < weight (JObj node)"
  apply (auto simp: nested_elements_def has_key_def dict_get_def
         split: if_splits option.splits json.splits)
  apply (drule weight_py_iter)
  apply (drule weight_map_of)
  apply (drule weight_map_of)
  apply simp
  done

termination search_elements
proof (relation "measures
    [\<lambda>x. case x of Inl (deps, element, fid, fname) \<Rightarrow> weight element
               | Inr (deps, children, fid, fname) \<Rightarrow> sum_list (map weight children),
     \<lambda>x. case x of Inl (deps, element, fid, fname) \<Rightarrow> 0
               | Inr (deps, children, fid, fname) \<Rightarrow> Suc (length children)]",
    goal_cases)
  case 1
  show ?case by simp
next
  case (2 deps element fid fname deps1 children)
  then show ?case using weight_child_elements by auto
next
  case (3 deps element fid fname deps1 children deps2 nested)
  then show ?case using weight_nested_elements by auto
next
  case (4 deps child rest fid fname)
  show ?case by auto
next
  case (5 deps child rest fid fname deps1)
  show ?case by auto
qed

text \<open>
  \<open>_analyze_form\<close>. The parameter \<open>loads\<close> is \<open>json.loads\<close>, with \<open>None\<close> for a text
  that it rejects.
\<close>

definition analyze_form ::
  "(string \<Rightarrow> json option) \<Rightarrow> MDMDependency list \<Rightarrow> json \<Rightarrow> error + MDMDependency list" where
  "analyze_form loads deps form =
     (case form of
        JObj form_dict \<Rightarrow>
          (let fid = dict_get form_dict ''id'' (JStr ''unknown'');
               fname = dict_get form_dict ''name'' (JStr ''unknown'')
           in case dict_get form_dict ''json'' (JObj []) of
                JStr text \<Rightarrow>
                  (case loads text of
                     None \<Rightarrow> Inl JSONDecodeError
                   | Some form_json \<Rightarrow> search_elements deps form_json fid fname)
              | form_json \<Rightarrow> search_elements deps form_json fid fname)
      | _ \<Rightarrow> Inl AttributeError)"

text \<open>\<open>for form in forms: self._analyze_form(form)\<close>\<close>

fun analyze_forms ::
  "(string \<Rightarrow> json option) \<Rightarrow> MDMDependency list \<Rightarrow> json list \<Rightarrow> error + MDMDependency list" where
  "analyze_forms loads deps [] = Inr deps"
| "analyze_forms loads deps (form # rest) =
     and_then (analyze_form loads deps form) (\<lambda>deps1. analyze_forms loads deps1 rest)"

text \<open>
  \<open>set(d.form_id for d in self.dependencies)\<close>. A list or a dict is not hashable. Among
  the other values, \<open>True\<close> equals 1 and \<open>False\<close> equals 0, so the members of the set
  are compared through \<open>py_key\<close>.
\<close>

fun py_hashable :: "json \<Rightarrow> bool" where
  "py_hashable (JArr xs) = False"
| "py_hashable (JObj d) = False"
| "py_hashable other = True"

fun py_key :: "json \<Rightarrow> json" where
  "py_key (JBool b) = JNum (if b then 1 else 0)"
| "py_key v = v"

definition set_add :: "json list \<Rightarrow> json \<Rightarrow> json list" where
  "set_add members v = (if py_key v \<in> py_key ` set members then members else members @ [v])"

definition py_set :: "json list \<Rightarrow> error + json list" where
  "py_set values =
     (if list_all py_hashable values then Inr (foldl set_add [] values) else Inl TypeError)"

text \<open>\<open>counts[k] = counts.get(k, 0) + 1\<close>\<close>

definition count_up :: "string \<Rightarrow> (string \<times> nat) list \<Rightarrow> (string \<times> nat) list" where
  "count_up k counts = dict_set k (dict_get counts k 0 + 1) counts"

definition stats_step :: "statistics_dict \<Rightarrow> MDMDependency \<Rightarrow> statistics_dict" where
  "stats_step stats dep =
     stats\<lparr>by_field_type := count_up (field_type dep) (by_field_type stats),
           by_options_source := count_up (options_source dep) (by_options_source stats),
           ajax_cascade_count :=
             (if has_ajax_cascade dep then ajax_cascade_count stats + 1
              else ajax_cascade_count stats)\<rparr>"

definition generate_statistics :: "MDMDependency list \<Rightarrow> error + statistics_dict" where
  "generate_statistics deps =
     and_then (py_set (map form_id deps)) (\<lambda>forms_with_mdm.
       Inr (foldl stats_step
              \<lparr>by_field_type = [], by_options_source = [], ajax_cascade_count = 0,
                unique_forms_with_mdm = length forms_with_mdm\<rparr>
              deps))"

text \<open>
  \<open>analyze\<close>. \<open>load\<close> is what \<open>_load_app_export\<close> read from the archive, \<open>None\<close>
  when it printed its error and left through \<open>sys.exit(1)\<close>.
\<close>

definition analyze ::
  "(string \<Rightarrow> json option) \<Rightarrow> analyzer \<Rightarrow> json option \<Rightarrow> error + AnalysisReport" where
  "analyze loads self load =
     (case load of
        None \<Rightarrow> Inl (SystemExit 1)
      | Some document \<Rightarrow>
          and_then (get_forms (self\<lparr>self_app_data := document\<rparr>)) (\<lambda>(forms, self1).
          and_then (py_len forms) (\<lambda>n.
          and_then (py_iter forms) (\<lambda>form_list.
          and_then (analyze_forms loads (self_dependencies self1) form_list) (\<lambda>deps.
          and_then (generate_statistics deps) (\<lambda>stats.
            case document of
              JObj app_data \<Rightarrow>
                Inr \<lparr>application_id = dict_get app_data ''appId'' (JStr ''unknown''),
                     application_name = dict_get app_data ''appName'' (JStr ''unknown''),
                     total_forms = n,
                     total_mdm_fields = length deps,
                     dependencies = deps,
                     warnings = self_warnings self1,
                     statistics = stats\<rparr>
            | _ \<Rightarrow> Inl AttributeError))))))"

text \<open>
  What a walk may do to the list of dependencies: append entries whose field type is one
  of \<open>MDM_FIELD_TYPES\<close>.
\<close>

definition appended_mdm :: "MDMDependency list \<Rightarrow> MDMDependency list \<Rightarrow> bool" where
  "appended_mdm deps deps' =
     (\<exists>new. deps' = deps @ new \<and> list_all (\<lambda>d. field_type d \<in> MDM_FIELD_TYPES) new)"

section \<open>Example data\<close>

text \<open>
  An export with three forms. The first holds a select box bound to a JDBC binder, a text
  field, a select box with static options controlled by another field, and a select box
  with static options whose \<open>controlField\<close> is the empty string. The second nests a
  radio group with cascade options under \<open>properties.elements\<close>. The definition of
  the third is the text \<open>{}\<close>, which \<open>example_loads\<close> parses.
\<close>

definition example_loads :: "string \<Rightarrow> json option" where
  "example_loads text = (if text = ''{}'' then Some (JObj []) else None)"

definition example_document :: json where
  "example_document =
     JObj [(''appId'', JStr ''crm''),
           (''appName'', JStr ''Customers''),
           (''forms'', JArr
              [JObj [(''id'', JStr ''customer''), (''name'', JStr ''Customer''),
                     (''json'', JObj
                        [(''className'', JStr ''org.joget.apps.form.model.Form''),
                         (''elements'', JArr
                            [JObj [(''className'', JStr ''org.joget.apps.form.lib.SelectBox''),
                                   (''properties'', JObj
                                      [(''id'', JStr ''country''), (''label'', JStr ''Country''),
                                       (''optionsBinder'', JObj
                                          [(''className'',
                                              JStr ''org.joget.apps.form.lib.JdbcOptionsBinder''),
                                           (''properties'', JObj [])])])],
                             JObj [(''className'', JStr ''org.joget.apps.form.lib.TextField''),
                                   (''properties'', JObj [(''id'', JStr ''name'')])],
                             JObj [(''className'', JStr ''org.joget.apps.form.lib.SelectBox''),
                                   (''properties'', JObj
                                      [(''id'', JStr ''city''), (''options'', JArr []),
                                       (''controlField'', JStr ''country'')])],
                             JObj [(''className'', JStr ''org.joget.apps.form.lib.SelectBox''),
                                   (''properties'', JObj
                                      [(''id'', JStr ''title''), (''options'', JArr []),
                                       (''controlField'', JStr '''')])]])])],
               JObj [(''id'', JStr ''order''), (''name'', JStr ''Order''),
                     (''json'', JObj
                        [(''className'', JStr ''org.joget.apps.form.model.Form''),
                         (''properties'', JObj
                            [(''elements'', JArr
                               [JObj [(''className'', JStr ''radio''),
                                      (''properties'', JObj
                                         [(''id'', JStr ''priority''),
                                          (''cascadeOptions'', JObj
                                             [(''url'', JStr ''/priorities'')])])]])])])],
               JObj [(''id'', JStr ''empty''), (''json'', JStr ''{}'')]])]"

definition example_report :: AnalysisReport where
  "example_report =
     \<lparr>application_id = JStr ''crm'', application_name = JStr ''Customers'',
      total_forms = 3, total_mdm_fields = 3,
      dependencies =
        [\<lparr>form_id = JStr ''customer'', form_name = JStr ''Customer'',
          field_id = JStr ''country'', field_label = JStr ''Country'',
          field_type = ''selectBox'', options_source = ''unknown'',
          options_config = JObj [], has_ajax_cascade = False, cascade_config = None\<rparr>,
         \<lparr>form_id = JStr ''customer'', form_name = JStr ''Customer'',
          field_id = JStr ''city'', field_label = JStr ''unknown'',
          field_type = ''selectBox'', options_source = ''static'',
          options_config = JArr [], has_ajax_cascade = True,
          cascade_config =
            Some (JObj [(''controlField'', JStr ''country''), (''cascadeOptions'', JObj [])])\<rparr>,
         \<lparr>form_id = JStr ''order'', form_name = JStr ''Order'',
          field_id = JStr ''priority'', field_label = JStr ''unknown'',
          field_type = ''radio'', options_source = ''static'',
          options_config = JObj [], has_ajax_cascade = True,
          cascade_config =
            Some (JObj [(''controlField'', JNull),
                        (''cascadeOptions'', JObj [(''url'', JStr ''/priorities'')])])\<rparr>],
      warnings = [],
      statistics =
        \<lparr>by_field_type = [(''selectBox'', 2), (''radio'', 1)],
         by_options_source = [(''unknown'', 1), (''static'', 2)],
         ajax_cascade_count = 2, unique_forms_with_mdm = 2\<rparr>\<rparr>"

definition example_cascade_field :: "(string \<times> json) list" where
  "example_cascade_field =
     [(''className'', JStr ''org.joget.apps.form.lib.SelectBox''),
      (''properties'', JObj [(''id'', JStr ''city''), (''options'', JArr []),
                             (''controlField'', JStr ''country'')])]"

definition example_static_field :: "(string \<times> json) list" where
  "example_static_field =
     [(''className'', JStr ''org.joget.apps.form.lib.SelectBox''),
      (''properties'', JObj [(''id'', JStr ''title''),
                             (''options'', JArr [JObj [(''value'', JStr ''mr''),
                                                       (''label'', JStr ''Mr'')]])])]"

definition example_empty_control_field :: "(string \<times> json) list" where
  "example_empty_control_field =
     [(''className'', JStr ''org.joget.apps.form.lib.SelectBox''),
      (''properties'', JObj [(''id'', JStr ''title''), (''options'', JArr []),
                             (''controlField'', JStr '''')])]"

definition example_text_field :: "(string \<times> json) list" where
  "example_text_field =
     [(''className'', JStr ''org.joget.apps.form.lib.TextField''),
      (''properties'', JObj [(''id'', JStr ''name''), (''controlField'', JStr ''country'')])]"

text \<open>The outside world of a machine where nothing answers, and of one that is well.\<close>

definition example_percent :: "int \<Rightarrow> int \<Rightarrow> int option" where
  "example_percent mem_used mem_total =
     (if mem_total = 0 then None else Some (mem_used * 100 div mem_total))"

definition example_probes_down :: probes where
  "example_probes_down =
     \<lparr>web_get = HttpRaised (PyException [RequestsConnectionError]),
      mysql_first = ProcRaised (PyException [FileNotFoundError]),
      mysql_retry = ProcRaised (PyException [FileNotFoundError]),
      admin_get = HttpRaised (PyException [RequestsConnectionError]),
      ps_aux = ProcRaised (PyException []),
      df_root = Completed 1 '''',
      free_m = ProcRaised (PyException [FileNotFoundError])\<rparr>"

definition example_probes_up :: probes where
  "example_probes_up =
     \<lparr>web_get = Response 200,
      mysql_first = Completed 1 '''',
      mysql_retry = Completed 0 '''',
      admin_get = Response 302,
      ps_aux = Completed 0
        ''USER PID COMMAND\<newline>joget 812 java -Dwflow.home=/opt/joget-9.0.0/wflow\<newline>'',
      df_root = Completed 0
        ''Filesystem      Size  Used Avail Use% Mounted on\<newline>/dev/sda1        50G   41G    9G  82% /\<newline>'',
      free_m = Completed 0
        ''total used free\<newline>Mem: 16000 4000 12000\<newline>Swap: 0 0 0\<newline>''\<rparr>"

section \<open>Properties of the health evaluator\<close>

lemma count_status_pos: "0 < count_status s rs \<longleftrightarrow> s \<in> status ` set rs"
  by (induction rs) (auto simp: count_status_def)

text \<open>
  C1. The overall status is UNHEALTHY when some result is UNHEALTHY; otherwise DEGRADED
  when some result is DEGRADED; otherwise UNKNOWN when some result is UNKNOWN; otherwise
  HEALTHY. It depends on the set of statuses only, so neither the order of the results
  nor the other statuses matter, and the empty sequence is HEALTHY.
\<close>

theorem overall_status_severity:
  "calculate_overall_status rs =
     (if UNHEALTHY \<in> status ` set rs then UNHEALTHY
      else if DEGRADED \<in> status ` set rs then DEGRADED
      else if UNKNOWN \<in> status ` set rs then UNKNOWN
      else HEALTHY)
   \<and> calculate_overall_status [] = HEALTHY"
  by (simp add: calculate_overall_status_def count_status_pos)

theorem overall_status_severity_witness:
  "calculate_overall_status
     [\<lparr>check_name = ''Web Interface'', status = HEALTHY\<rparr>,
      \<lparr>check_name = ''Database Connection'', status = UNKNOWN\<rparr>,
      \<lparr>check_name = ''Admin Console'', status = DEGRADED\<rparr>,
      \<lparr>check_name = ''Process Status'', status = UNHEALTHY\<rparr>,
      \<lparr>check_name = ''Disk Space'', status = HEALTHY\<rparr>] = UNHEALTHY
   \<and> calculate_overall_status
     [\<lparr>check_name = ''Database Connection'', status = UNKNOWN\<rparr>,
      \<lparr>check_name = ''Admin Console'', status = DEGRADED\<rparr>,
      \<lparr>check_name = ''Disk Space'', status = HEALTHY\<rparr>] = DEGRADED
   \<and> calculate_overall_status
     [\<lparr>check_name = ''Disk Space'', status = HEALTHY\<rparr>,
      \<lparr>check_name = ''Memory Usage'', status = UNKNOWN\<rparr>] = UNKNOWN"
  using overall_status_severity [of
     "[\<lparr>check_name = ''Web Interface'', status = HEALTHY\<rparr>,
      \<lparr>check_name = ''Database Connection'', status = UNKNOWN\<rparr>,
      \<lparr>check_name = ''Admin Console'', status = DEGRADED\<rparr>,
      \<lparr>check_name = ''Process Status'', status = UNHEALTHY\<rparr>,
      \<lparr>check_name = ''Disk Space'', status = HEALTHY\<rparr>]"]
    overall_status_severity [of
     "[\<lparr>check_name = ''Database Connection'', status = UNKNOWN\<rparr>,
      \<lparr>check_name = ''Admin Console'', status = DEGRADED\<rparr>,
      \<lparr>check_name = ''Disk Space'', status = HEALTHY\<rparr>]"]
    overall_status_severity [of
     "[\<lparr>check_name = ''Disk Space'', status = HEALTHY\<rparr>,
      \<lparr>check_name = ''Memory Usage'', status = UNKNOWN\<rparr>]"]
  by simp

subsection \<open>Disk space\<close>

lemma df_output_79:
  "disk_used_percent (Completed 0
     ''Filesystem      Size  Used Avail Use% Mounted on\<newline>/dev/sda1        50G   38G   10G  79% /\<newline>'')
   = Some 79"
  by code_simp

lemma df_output_80:
  "disk_used_percent (Completed 0
     ''Filesystem      Size  Used Avail Use% Mounted on\<newline>/dev/sda1        50G   38G   10G  80% /\<newline>'')
   = Some 80"
  by code_simp

lemma df_output_90:
  "disk_used_percent (Completed 0
     ''Filesystem      Size  Used Avail Use% Mounted on\<newline>/dev/sda1        50G   38G   10G  90% /\<newline>'')
   = Some 90"
  by code_simp

lemma df_output_unparsed:
  "disk_used_percent (Completed 0 ''Filesystem      Size  Used Avail Use% Mounted on\<newline>'')
   = None"
  by code_simp

text \<open>
  C6. The disk check appends one result named Disk Space. When a used percentage \<open>p\<close> was
  read from the tool output, its status is HEALTHY for \<open>p < 80\<close>, DEGRADED for
  \<open>80 \<le> p < 90\<close> and UNHEALTHY for \<open>90 \<le> p\<close>; when none could be read, it is UNKNOWN.
\<close>

theorem disk_space_thresholds:
  "check_disk_space rs outcome = rs @ [\<lparr>check_name = ''Disk Space'', status =
      (case disk_used_percent outcome of
         None \<Rightarrow> UNKNOWN
       | Some p \<Rightarrow> if p < 80 then HEALTHY else if p < 90 then DEGRADED else UNHEALTHY)\<rparr>]"
  by (auto simp: check_disk_space_def disk_used_percent_def append_result_def Let_def
       split: proc_outcome.splits option.splits list.splits)

theorem disk_space_thresholds_witness:
  "check_disk_space [] (Completed 0
     ''Filesystem      Size  Used Avail Use% Mounted on\<newline>/dev/sda1        50G   38G   10G  79% /\<newline>'')
     = [\<lparr>check_name = ''Disk Space'', status = HEALTHY\<rparr>]
   \<and> check_disk_space [] (Completed 0
     ''Filesystem      Size  Used Avail Use% Mounted on\<newline>/dev/sda1        50G   38G   10G  80% /\<newline>'')
     = [\<lparr>check_name = ''Disk Space'', status = DEGRADED\<rparr>]
   \<and> check_disk_space [] (Completed 0
     ''Filesystem      Size  Used Avail Use% Mounted on\<newline>/dev/sda1        50G   38G   10G  90% /\<newline>'')
     = [\<lparr>check_name = ''Disk Space'', status = UNHEALTHY\<rparr>]
   \<and> check_disk_space [] (Completed 0 ''Filesystem      Size  Used Avail Use% Mounted on\<newline>'')
     = [\<lparr>check_name = ''Disk Space'', status = UNKNOWN\<rparr>]"
  using
    disk_space_thresholds [of "[]" "Completed 0
     ''Filesystem      Size  Used Avail Use% Mounted on\<newline>/dev/sda1        50G   38G   10G  79% /\<newline>''"]
    disk_space_thresholds [of "[]" "Completed 0
     ''Filesystem      Size  Used Avail Use% Mounted on\<newline>/dev/sda1        50G   38G   10G  80% /\<newline>''"]
    disk_space_thresholds [of "[]" "Completed 0
     ''Filesystem      Size  Used Avail Use% Mounted on\<newline>/dev/sda1        50G   38G   10G  90% /\<newline>''"]
    disk_space_thresholds [of "[]"
     "Completed 0 ''Filesystem      Size  Used Avail Use% Mounted on\<newline>''"]
  by (simp add: df_output_79 df_output_80 df_output_90 df_output_unparsed)

subsection \<open>Web interface\<close>

text \<open>
  C8, as the script has it. The web check appends one result named Web Interface: HEALTHY
  for a response with status code 200, DEGRADED for a response with any other code,
  UNHEALTHY for an exception that is a ConnectionError, DEGRADED for an exception that
  is a Timeout and not a ConnectionError, UNHEALTHY for any other exception.
\<close>

theorem web_interface_status:
  "check_web_interface rs outcome = rs @ [\<lparr>check_name = ''Web Interface'', status =
      (case outcome of
         Response code \<Rightarrow> if code = 200 then HEALTHY else DEGRADED
       | HttpRaised e \<Rightarrow>
           if isinstance e RequestsConnectionError then UNHEALTHY
           else if isinstance e RequestsTimeout then DEGRADED
           else UNHEALTHY)\<rparr>]"
  by (simp add: check_web_interface_def append_result_def split: http_outcome.splits)

theorem web_interface_status_witness:
  "check_web_interface [] (Response 200) = [\<lparr>check_name = ''Web Interface'', status = HEALTHY\<rparr>]
   \<and> check_web_interface [] (Response 503)
        = [\<lparr>check_name = ''Web Interface'', status = DEGRADED\<rparr>]
   \<and> check_web_interface [] (HttpRaised (PyException [RequestsConnectionError]))
        = [\<lparr>check_name = ''Web Interface'', status = UNHEALTHY\<rparr>]
   \<and> check_web_interface [] (HttpRaised (PyException [RequestsTimeout]))
        = [\<lparr>check_name = ''Web Interface'', status = DEGRADED\<rparr>]
   \<and> check_web_interface [] (HttpRaised (PyException []))
        = [\<lparr>check_name = ''Web Interface'', status = UNHEALTHY\<rparr>]"
  using web_interface_status [of "[]" "Response 200"]
    web_interface_status [of "[]" "Response 503"]
    web_interface_status [of "[]" "HttpRaised (PyException [RequestsConnectionError])"]
    web_interface_status [of "[]" "HttpRaised (PyException [RequestsTimeout])"]
    web_interface_status [of "[]" "HttpRaised (PyException [])"]
  by simp

text \<open>
  The claim as stated gives every timeout the status DEGRADED. A timeout while connecting
  is both a ConnectionError and a Timeout; the first handler takes it, and the status is
  UNHEALTHY.
\<close>

theorem connect_timeout_unhealthy:
  "isinstance (PyException [RequestsConnectionError, RequestsTimeout]) RequestsTimeout
   \<and> check_web_interface [] (HttpRaised (PyException [RequestsConnectionError, RequestsTimeout]))
       = [\<lparr>check_name = ''Web Interface'', status = UNHEALTHY\<rparr>]"
  by (simp add: check_web_interface_def append_result_def)

subsection \<open>The six checks\<close>

lemma web_one:
  "check_web_interface rs w = rs @ [\<lparr>check_name = ''Web Interface'',
      status = status (last (check_web_interface [] w))\<rparr>]"
  by (auto simp: check_web_interface_def append_result_def split: http_outcome.splits)

lemma db_one:
  "check_database_connection rs a b = rs @ [\<lparr>check_name = ''Database Connection'',
      status = status (last (check_database_connection [] a b))\<rparr>]"
  by (auto simp: check_database_connection_def database_handler_def append_result_def
       split: proc_outcome.splits)

lemma admin_one:
  "check_admin_console rs w = rs @ [\<lparr>check_name = ''Admin Console'',
      status = status (last (check_admin_console [] w))\<rparr>]"
  by (auto simp: check_admin_console_def append_result_def split: http_outcome.splits)

lemma process_one:
  "check_process_running v rs p = rs @ [\<lparr>check_name = ''Process Status'',
      status = status (last (check_process_running v [] p))\<rparr>]"
  by (auto simp: check_process_running_def append_result_def Let_def split: proc_outcome.splits)

lemma disk_one:
  "check_disk_space rs p = rs @ [\<lparr>check_name = ''Disk Space'',
      status = status (last (check_disk_space [] p))\<rparr>]"
  by (auto simp: check_disk_space_def append_result_def Let_def
       split: proc_outcome.splits option.splits)

lemma memory_one:
  "check_memory_usage pc rs p = rs @ [\<lparr>check_name = ''Memory Usage'',
      status = status (last (check_memory_usage pc [] p))\<rparr>]"
  by (auto simp: check_memory_usage_def append_result_def Let_def
       split: proc_outcome.splits option.splits)

text \<open>
  C9. Whatever the outside world answers, one run of the checks appends six results to
  the results held before, named Web Interface, Database Connection, Admin Console,
  Process Status, Disk Space and Memory Usage, in this order.
\<close>

theorem run_all_checks_six:
  "\<exists>s1 s2 s3 s4 s5 s6.
     snd (run_all_checks version percent env rs) =
       rs @ [\<lparr>check_name = ''Web Interface'', status = s1\<rparr>,
             \<lparr>check_name = ''Database Connection'', status = s2\<rparr>,
             \<lparr>check_name = ''Admin Console'', status = s3\<rparr>,
             \<lparr>check_name = ''Process Status'', status = s4\<rparr>,
             \<lparr>check_name = ''Disk Space'', status = s5\<rparr>,
             \<lparr>check_name = ''Memory Usage'', status = s6\<rparr>]"
proof -
  let ?r1 = "check_web_interface rs (web_get env)"
  let ?r2 = "check_database_connection ?r1 (mysql_first env) (mysql_retry env)"
  let ?r3 = "check_admin_console ?r2 (admin_get env)"
  let ?r4 = "check_process_running version ?r3 (ps_aux env)"
  let ?r5 = "check_disk_space ?r4 (df_root env)"
  let ?r6 = "check_memory_usage percent ?r5 (free_m env)"
  have "snd (run_all_checks version percent env rs) = ?r6"
    by (simp add: run_all_checks_def Let_def)
  moreover obtain s6 where "?r6 = ?r5 @ [\<lparr>check_name = ''Memory Usage'', status = s6\<rparr>]"
    using memory_one by blast
  moreover obtain s5 where "?r5 = ?r4 @ [\<lparr>check_name = ''Disk Space'', status = s5\<rparr>]"
    using disk_one by blast
  moreover obtain s4 where "?r4 = ?r3 @ [\<lparr>check_name = ''Process Status'', status = s4\<rparr>]"
    using process_one by blast
  moreover obtain s3 where "?r3 = ?r2 @ [\<lparr>check_name = ''Admin Console'', status = s3\<rparr>]"
    using admin_one by blast
  moreover obtain s2 where "?r2 = ?r1 @ [\<lparr>check_name = ''Database Connection'', status = s2\<rparr>]"
    using db_one by blast
  moreover obtain s1 where "?r1 = rs @ [\<lparr>check_name = ''Web Interface'', status = s1\<rparr>]"
    using web_one by blast
  ultimately have "snd (run_all_checks version percent env rs) =
       rs @ [\<lparr>check_name = ''Web Interface'', status = s1\<rparr>,
             \<lparr>check_name = ''Database Connection'', status = s2\<rparr>,
             \<lparr>check_name = ''Admin Console'', status = s3\<rparr>,
             \<lparr>check_name = ''Process Status'', status = s4\<rparr>,
             \<lparr>check_name = ''Disk Space'', status = s5\<rparr>,
             \<lparr>check_name = ''Memory Usage'', status = s6\<rparr>]"
    by simp
  then show ?thesis by blast
qed

text \<open>
  The witness runs the six checks on a machine where nothing answers, and on one that is
  well but for a disk that is 82 percent full.
\<close>

lemma example_run_down:
  "snd (run_all_checks ''9.0.0'' example_percent example_probes_down []) =
     [\<lparr>check_name = ''Web Interface'', status = UNHEALTHY\<rparr>,
      \<lparr>check_name = ''Database Connection'', status = UNKNOWN\<rparr>,
      \<lparr>check_name = ''Admin Console'', status = DEGRADED\<rparr>,
      \<lparr>check_name = ''Process Status'', status = UNKNOWN\<rparr>,
      \<lparr>check_name = ''Disk Space'', status = UNKNOWN\<rparr>,
      \<lparr>check_name = ''Memory Usage'', status = UNKNOWN\<rparr>]"
  by code_simp

lemma example_run_up:
  "run_all_checks ''9.0.0'' example_percent example_probes_up [] =
     (DEGRADED,
      [\<lparr>check_name = ''Web Interface'', status = HEALTHY\<rparr>,
       \<lparr>check_name = ''Database Connection'', status = HEALTHY\<rparr>,
       \<lparr>check_name = ''Admin Console'', status = HEALTHY\<rparr>,
       \<lparr>check_name = ''Process Status'', status = HEALTHY\<rparr>,
       \<lparr>check_name = ''Disk Space'', status = DEGRADED\<rparr>,
       \<lparr>check_name = ''Memory Usage'', status = HEALTHY\<rparr>])"
  by code_simp

theorem run_all_checks_six_witness:
  "snd (run_all_checks ''9.0.0'' example_percent example_probes_down []) =
     [\<lparr>check_name = ''Web Interface'', status = UNHEALTHY\<rparr>,
      \<lparr>check_name = ''Database Connection'', status = UNKNOWN\<rparr>,
      \<lparr>check_name = ''Admin Console'', status = DEGRADED\<rparr>,
      \<lparr>check_name = ''Process Status'', status = UNKNOWN\<rparr>,
      \<lparr>check_name = ''Disk Space'', status = UNKNOWN\<rparr>,
      \<lparr>check_name = ''Memory Usage'', status = UNKNOWN\<rparr>]
   \<and> map check_name (snd (run_all_checks ''9.0.0'' example_percent example_probes_up [])) =
     [''Web Interface'', ''Database Connection'', ''Admin Console'', ''Process Status'',
      ''Disk Space'', ''Memory Usage'']"
  using run_all_checks_six [of "''9.0.0''" example_percent example_probes_down "[]"]
    run_all_checks_six [of "''9.0.0''" example_percent example_probes_up "[]"]
    example_run_down example_run_up
  by simp

section \<open>Properties of the scanner\<close>

subsection \<open>Binder classification\<close>

text \<open>
  A key of \<open>EXTERNAL_BINDERS\<close> is looked for in the lower-cased class name, and each key
  has a capital letter, which a lower-cased name never has.
\<close>

lemma py_contains_subset: "py_contains sub s \<Longrightarrow> set sub \<subseteq> set s"
proof (induction s)
  case Nil
  then show ?case by simp
next
  case (Cons c cs)
  from Cons.prems have "take (length sub) (c # cs) = sub \<or> py_contains sub cs" by simp
  then show ?case
  proof
    assume "take (length sub) (c # cs) = sub"
    then have "set sub = set (take (length sub) (c # cs))" by simp
    then show ?thesis using set_take_subset by fast
  next
    assume "py_contains sub cs"
    with Cons.IH show ?thesis by auto
  qed
qed

lemma lower_char_not_upper: "\<not> is_upper (lower_char c)"
  by (auto simp: lower_char_def is_upper_def)

lemma py_lower_no_upper: "c \<in> set (py_lower s) \<Longrightarrow> \<not> is_upper c"
  by (auto simp: py_lower_def lower_char_not_upper)

lemma py_contains_lower_no_upper:
  assumes "c \<in> set key" and "is_upper c"
  shows "\<not> py_contains key (py_lower s)"
  using assms py_contains_subset py_lower_no_upper by blast

lemma identify_binder_type_unknown: "identify_binder_type binder_class = ''unknown''"
proof -
  have f: "\<not> py_contains ''formOptions'' (py_lower binder_class)"
    by (rule py_contains_lower_no_upper [of "CHR ''O''"]) (simp_all add: is_upper_def)
  have j: "\<not> py_contains ''jdbcOptions'' (py_lower binder_class)"
    by (rule py_contains_lower_no_upper [of "CHR ''O''"]) (simp_all add: is_upper_def)
  have r: "\<not> py_contains ''restOptions'' (py_lower binder_class)"
    by (rule py_contains_lower_no_upper [of "CHR ''O''"]) (simp_all add: is_upper_def)
  show ?thesis
    by (simp add: identify_binder_type_def EXTERNAL_BINDERS_def f j r)
qed

lemma jdbc_lowered:
  "py_contains ''jdbcoptions'' (py_lower ''org.joget.apps.form.lib.JdbcOptionsBinder'')"
  by code_simp

text \<open>
  C2. The claim is that a binder whose class name contains \<open>jdbcoptions\<close>, whatever the
  case of its letters, is classified \<open>jdbcOptions\<close>. The script compares the
  lower-cased class name with the key as it is spelled, \<open>jdbcOptions\<close>: the class name
  of the JDBC binder does contain \<open>jdbcoptions\<close> once lower-cased, and the script
  classifies it \<open>unknown\<close>, as \<open>identify_binder_type_unknown\<close> shows it does for every
  class name.
\<close>

theorem jdbc_binder_classified_unknown:
  "py_contains ''jdbcoptions'' (py_lower ''org.joget.apps.form.lib.JdbcOptionsBinder'')
   \<and> identify_binder_type ''org.joget.apps.form.lib.JdbcOptionsBinder'' = ''unknown''
   \<and> field_options
        [(''id'', JStr ''country''),
         (''optionsBinder'',
            JObj [(''className'', JStr ''org.joget.apps.form.lib.JdbcOptionsBinder''),
                  (''properties'', JObj [(''sql'', JStr ''SELECT code, name FROM country'')])])]
       = Inr (JObj [(''sql'', JStr ''SELECT code, name FROM country'')], ''unknown'')"
  by (simp add: jdbc_lowered identify_binder_type_unknown field_options_def dict_get_def
        has_key_def)

subsection \<open>Recording a candidate field\<close>

lemma field_options_no_binder:
  "\<not> has_key properties ''optionsBinder'' \<Longrightarrow>
     \<exists>config. field_options properties = Inr (config, ''static'')"
  by (simp add: field_options_def has_key_def)

lemma no_key_not_truthy:
  "\<not> has_key properties k \<Longrightarrow> \<not> py_truthy (dict_get properties k JNull)"
  by (simp add: has_key_def dict_get_def)

lemma py_truthy_iff:
  "py_truthy v \<longleftrightarrow> v \<notin> {JNull, JBool False, JNum 0, JStr [], JArr [], JObj []}"
  by (cases v) auto

text \<open>
  C3, as the script has it. For a candidate field whose \<open>properties\<close> is a dict and
  whose options are read without an exception, a dependency is appended exactly when
  \<open>options_source\<close> is not \<open>static\<close> or \<open>has_ajax_cascade\<close> holds, where
  \<open>has_ajax_cascade\<close> is the truth value of \<open>properties.get('controlField')\<close> or
  \<open>properties.get('cascadeOptions')\<close>; the dependency carries both values. A field with
  no \<open>optionsBinder\<close>, no \<open>controlField\<close> and no \<open>cascadeOptions\<close> is not recorded,
  whether or not it has static \<open>options\<close>. A field with no \<open>optionsBinder\<close> whose
  \<open>controlField\<close> (or \<open>cascadeOptions\<close>) is a value that counts as true is recorded
  with \<open>options_source = static\<close> and \<open>has_ajax_cascade = true\<close>. A field with no
  \<open>optionsBinder\<close> on which each of \<open>controlField\<close> and \<open>cascadeOptions\<close> is absent
  or is one of null, false, 0, the empty string, the empty list and the empty dict is
  not recorded: the presence of the key does not make it a dependency.
\<close>

theorem mdm_field_recorded_iff:
  assumes "dict_get element ''properties'' (JObj []) = JObj properties"
  shows
    "(field_options properties = Inr (config, source) \<longrightarrow>
        (if source \<noteq> ''static''
            \<or> py_truthy (dict_get properties ''controlField'' JNull)
            \<or> py_truthy (dict_get properties ''cascadeOptions'' JNull)
         then \<exists>d. analyze_mdm_field deps element fid fname ftype = Inr (deps @ [d])
                \<and> options_source d = source
                \<and> has_ajax_cascade d
                    = (py_truthy (dict_get properties ''controlField'' JNull)
                       \<or> py_truthy (dict_get properties ''cascadeOptions'' JNull))
         else analyze_mdm_field deps element fid fname ftype = Inr deps))
     \<and> (\<not> has_key properties ''optionsBinder'' \<and> \<not> has_key properties ''controlField''
          \<and> \<not> has_key properties ''cascadeOptions'' \<longrightarrow>
           analyze_mdm_field deps element fid fname ftype = Inr deps)
     \<and> (\<not> has_key properties ''optionsBinder''
          \<and> py_truthy (dict_get properties ''controlField'' JNull) \<longrightarrow>
           (\<exists>d. analyze_mdm_field deps element fid fname ftype = Inr (deps @ [d])
                \<and> options_source d = ''static'' \<and> has_ajax_cascade d))
     \<and> (\<not> has_key properties ''optionsBinder''
          \<and> dict_get properties ''controlField'' JNull
               \<in> {JNull, JBool False, JNum 0, JStr [], JArr [], JObj []}
          \<and> dict_get properties ''cascadeOptions'' JNull
               \<in> {JNull, JBool False, JNum 0, JStr [], JArr [], JObj []} \<longrightarrow>
           analyze_mdm_field deps element fid fname ftype = Inr deps)
     \<and> (\<not> has_key properties ''optionsBinder''
          \<and> (dict_get properties ''controlField'' JNull
                 \<notin> {JNull, JBool False, JNum 0, JStr [], JArr [], JObj []}
               \<or> dict_get properties ''cascadeOptions'' JNull
                 \<notin> {JNull, JBool False, JNum 0, JStr [], JArr [], JObj []}) \<longrightarrow>
           (\<exists>d. analyze_mdm_field deps element fid fname ftype = Inr (deps @ [d])
                \<and> options_source d = ''static'' \<and> has_ajax_cascade d))"
proof (intro conjI impI)
  assume "field_options properties = Inr (config, source)"
  with assms show "if source \<noteq> ''static''
            \<or> py_truthy (dict_get properties ''controlField'' JNull)
            \<or> py_truthy (dict_get properties ''cascadeOptions'' JNull)
         then \<exists>d. analyze_mdm_field deps element fid fname ftype = Inr (deps @ [d])
                \<and> options_source d = source
                \<and> has_ajax_cascade d
                    = (py_truthy (dict_get properties ''controlField'' JNull)
                       \<or> py_truthy (dict_get properties ''cascadeOptions'' JNull))
         else analyze_mdm_field deps element fid fname ftype = Inr deps"
    by (simp add: analyze_mdm_field_def and_then_def Let_def field_has_ajax_cascade_def)
next
  assume a: "\<not> has_key properties ''optionsBinder'' \<and> \<not> has_key properties ''controlField''
          \<and> \<not> has_key properties ''cascadeOptions''"
  then obtain config where "field_options properties = Inr (config, ''static'')"
    using field_options_no_binder by blast
  moreover from a have "\<not> field_has_ajax_cascade properties"
    by (simp add: field_has_ajax_cascade_def no_key_not_truthy)
  ultimately show "analyze_mdm_field deps element fid fname ftype = Inr deps"
    using assms by (simp add: analyze_mdm_field_def and_then_def Let_def)
next
  assume a: "\<not> has_key properties ''optionsBinder''
          \<and> py_truthy (dict_get properties ''controlField'' JNull)"
  then obtain config where "field_options properties = Inr (config, ''static'')"
    using field_options_no_binder by blast
  moreover from a have "field_has_ajax_cascade properties"
    by (simp add: field_has_ajax_cascade_def)
  ultimately show "\<exists>d. analyze_mdm_field deps element fid fname ftype = Inr (deps @ [d])
                \<and> options_source d = ''static'' \<and> has_ajax_cascade d"
    using assms by (simp add: analyze_mdm_field_def and_then_def Let_def)
next
  assume a: "\<not> has_key properties ''optionsBinder''
          \<and> dict_get properties ''controlField'' JNull
               \<in> {JNull, JBool False, JNum 0, JStr [], JArr [], JObj []}
          \<and> dict_get properties ''cascadeOptions'' JNull
               \<in> {JNull, JBool False, JNum 0, JStr [], JArr [], JObj []}"
  then obtain config where "field_options properties = Inr (config, ''static'')"
    using field_options_no_binder by blast
  moreover from a have "\<not> field_has_ajax_cascade properties"
    unfolding field_has_ajax_cascade_def py_truthy_iff by blast
  ultimately show "analyze_mdm_field deps element fid fname ftype = Inr deps"
    using assms by (simp add: analyze_mdm_field_def and_then_def Let_def)
next
  assume a: "\<not> has_key properties ''optionsBinder''
          \<and> (dict_get properties ''controlField'' JNull
                 \<notin> {JNull, JBool False, JNum 0, JStr [], JArr [], JObj []}
               \<or> dict_get properties ''cascadeOptions'' JNull
                 \<notin> {JNull, JBool False, JNum 0, JStr [], JArr [], JObj []})"
  then obtain config where "field_options properties = Inr (config, ''static'')"
    using field_options_no_binder by blast
  moreover from a have "field_has_ajax_cascade properties"
    unfolding field_has_ajax_cascade_def py_truthy_iff by blast
  ultimately show "\<exists>d. analyze_mdm_field deps element fid fname ftype = Inr (deps @ [d])
                \<and> options_source d = ''static'' \<and> has_ajax_cascade d"
    using assms by (simp add: analyze_mdm_field_def and_then_def Let_def)
qed

lemma example_cascade_hyps:
  "dict_get example_cascade_field ''properties'' (JObj [])
     = JObj [(''id'', JStr ''city''), (''options'', JArr []), (''controlField'', JStr ''country'')]
   \<and> \<not> has_key [(''id'', JStr ''city''), (''options'', JArr []),
                 (''controlField'', JStr ''country'')] ''optionsBinder''
   \<and> py_truthy (dict_get [(''id'', JStr ''city''), (''options'', JArr []),
                 (''controlField'', JStr ''country'')] ''controlField'' JNull)"
  by (simp add: example_cascade_field_def dict_get_def has_key_def)

lemma example_static_hyps:
  "dict_get example_static_field ''properties'' (JObj [])
     = JObj [(''id'', JStr ''title''),
             (''options'', JArr [JObj [(''value'', JStr ''mr''), (''label'', JStr ''Mr'')]])]
   \<and> has_key [(''id'', JStr ''title''),
               (''options'', JArr [JObj [(''value'', JStr ''mr''), (''label'', JStr ''Mr'')]])]
         ''options''
   \<and> \<not> has_key [(''id'', JStr ''title''),
               (''options'', JArr [JObj [(''value'', JStr ''mr''), (''label'', JStr ''Mr'')]])]
         ''optionsBinder''
   \<and> \<not> has_key [(''id'', JStr ''title''),
               (''options'', JArr [JObj [(''value'', JStr ''mr''), (''label'', JStr ''Mr'')]])]
         ''controlField''
   \<and> \<not> has_key [(''id'', JStr ''title''),
               (''options'', JArr [JObj [(''value'', JStr ''mr''), (''label'', JStr ''Mr'')]])]
         ''cascadeOptions''"
  by (simp add: example_static_field_def dict_get_def has_key_def)

lemma example_falsy_hyps:
  "dict_get [(''properties'', JObj [(''options'', JArr []), (''controlField'', v)])]
       ''properties'' (JObj [])
     = JObj [(''options'', JArr []), (''controlField'', v)]
   \<and> \<not> has_key [(''options'', JArr []), (''controlField'', v)] ''optionsBinder''
   \<and> has_key [(''options'', JArr []), (''controlField'', v)] ''controlField''
   \<and> dict_get [(''options'', JArr []), (''controlField'', v)] ''controlField'' JNull = v
   \<and> dict_get [(''options'', JArr []), (''controlField'', v)] ''cascadeOptions'' JNull = JNull"
  by (simp add: dict_get_def has_key_def)

theorem mdm_field_recorded_iff_witness:
  "(\<exists>d. analyze_mdm_field [] example_cascade_field (JStr ''customer'') (JStr ''Customer'')
          ''selectBox'' = Inr [d]
       \<and> options_source d = ''static'' \<and> has_ajax_cascade d)
   \<and> analyze_mdm_field [] example_static_field (JStr ''customer'') (JStr ''Customer'')
          ''selectBox'' = Inr []
   \<and> analyze_mdm_field []
        [(''properties'', JObj [(''options'', JArr []), (''controlField'', JStr '''')])]
        (JStr ''customer'') (JStr ''Customer'') ''selectBox'' = Inr []
   \<and> analyze_mdm_field []
        [(''properties'', JObj [(''options'', JArr []), (''controlField'', JNull)])]
        (JStr ''customer'') (JStr ''Customer'') ''selectBox'' = Inr []
   \<and> analyze_mdm_field []
        [(''properties'', JObj [(''options'', JArr []), (''controlField'', JNum 0)])]
        (JStr ''customer'') (JStr ''Customer'') ''selectBox'' = Inr []
   \<and> analyze_mdm_field []
        [(''properties'', JObj [(''options'', JArr []), (''controlField'', JBool False)])]
        (JStr ''customer'') (JStr ''Customer'') ''selectBox'' = Inr []"
  using example_cascade_hyps example_static_hyps
    example_falsy_hyps [of "JStr ''''"] example_falsy_hyps [of JNull]
    example_falsy_hyps [of "JNum 0"] example_falsy_hyps [of "JBool False"]
    mdm_field_recorded_iff [of example_cascade_field
      "[(''id'', JStr ''city''), (''options'', JArr []), (''controlField'', JStr ''country'')]"
      "JArr []" "''static''" "[]" "JStr ''customer''" "JStr ''Customer''" "''selectBox''"]
    mdm_field_recorded_iff [of example_static_field
      "[(''id'', JStr ''title''),
        (''options'', JArr [JObj [(''value'', JStr ''mr''), (''label'', JStr ''Mr'')]])]"
      "JArr []" "''static''" "[]" "JStr ''customer''" "JStr ''Customer''" "''selectBox''"]
    mdm_field_recorded_iff [of
      "[(''properties'', JObj [(''options'', JArr []), (''controlField'', JStr '''')])]"
      "[(''options'', JArr []), (''controlField'', JStr '''')]"
      "JArr []" "''static''" "[]" "JStr ''customer''" "JStr ''Customer''" "''selectBox''"]
    mdm_field_recorded_iff [of
      "[(''properties'', JObj [(''options'', JArr []), (''controlField'', JNull)])]"
      "[(''options'', JArr []), (''controlField'', JNull)]"
      "JArr []" "''static''" "[]" "JStr ''customer''" "JStr ''Customer''" "''selectBox''"]
    mdm_field_recorded_iff [of
      "[(''properties'', JObj [(''options'', JArr []), (''controlField'', JNum 0)])]"
      "[(''options'', JArr []), (''controlField'', JNum 0)]"
      "JArr []" "''static''" "[]" "JStr ''customer''" "JStr ''Customer''" "''selectBox''"]
    mdm_field_recorded_iff [of
      "[(''properties'', JObj [(''options'', JArr []), (''controlField'', JBool False)])]"
      "[(''options'', JArr []), (''controlField'', JBool False)]"
      "JArr []" "''static''" "[]" "JStr ''customer''" "JStr ''Customer''" "''selectBox''"]
  by simp

text \<open>
  The claim as stated records every field on which \<open>controlField\<close> is set. The script
  tests the value of \<open>properties.get('controlField')\<close>, not the presence of the key: a
  field with static options whose \<open>controlField\<close> is the empty string is not recorded.
\<close>

theorem empty_control_field_not_recorded:
  "has_key [(''id'', JStr ''title''), (''options'', JArr []), (''controlField'', JStr '''')]
     ''controlField''
   \<and> dict_get example_empty_control_field ''properties'' (JObj [])
       = JObj [(''id'', JStr ''title''), (''options'', JArr []), (''controlField'', JStr '''')]
   \<and> analyze_mdm_field [] example_empty_control_field (JStr ''customer'') (JStr ''Customer'')
        ''selectBox'' = Inr []"
  by code_simp

subsection \<open>Field-type tags and candidates\<close>

lemma split_on_no_sep: "sep \<notin> set t \<Longrightarrow> split_on sep cur t = [rev cur @ t]"
  by (induction t arbitrary: cur) auto

lemma split_on_nonempty: "split_on sep cur s \<noteq> []"
  by (induction s arbitrary: cur) auto

lemma last_split_on: "sep \<notin> set t \<Longrightarrow> last (split_on sep cur (s @ sep # t)) = t"
  by (induction s arbitrary: cur) (auto simp: split_on_no_sep split_on_nonempty)

lemma replace_SelectBox: "py_replace ''SelectBox'' ''selectBox'' ''SelectBox'' = ''selectBox''"
  by (simp add: py_replace.simps)

lemma get_field_type_SelectBox: "get_field_type (package @ ''.SelectBox'') = ''selectBox''"
proof -
  have "last (py_split (CHR ''.'') (package @ CHR ''.'' # ''SelectBox'')) = ''SelectBox''"
    unfolding py_split_def by (rule last_split_on) simp
  then show ?thesis by (simp add: get_field_type_def replace_SelectBox)
qed

lemma appended_mdm_refl: "appended_mdm deps deps"
  by (simp add: appended_mdm_def)

lemma appended_mdm_trans:
  "appended_mdm a b \<Longrightarrow> appended_mdm b c \<Longrightarrow> appended_mdm a c"
  by (auto simp: appended_mdm_def)

lemma appended_mdm_iff:
  "appended_mdm deps deps' \<longleftrightarrow>
     (\<exists>new. deps' = deps @ new \<and> list_all (\<lambda>d. field_type d \<in> MDM_FIELD_TYPES) new)"
  by (simp add: appended_mdm_def)

lemma analyze_mdm_field_appended:
  "ftype \<in> MDM_FIELD_TYPES \<Longrightarrow> analyze_mdm_field deps element fid fname ftype = Inr deps'
     \<Longrightarrow> appended_mdm deps deps'"
  by (auto simp: analyze_mdm_field_def and_then_def appended_mdm_def Let_def
       split: json.splits sum.splits if_splits prod.splits)

lemma search_node_appended:
  "search_node deps element fid fname = Inr deps' \<Longrightarrow> appended_mdm deps deps'"
  by (auto simp: search_node_def and_then_def appended_mdm_refl
       split: sum.splits if_splits dest: analyze_mdm_field_appended)

lemma search_appended:
  "search_elements deps element fid fname = Inr deps' \<Longrightarrow> appended_mdm deps deps'"
  "search_list deps2 children fid2 fname2 = Inr deps2' \<Longrightarrow> appended_mdm deps2 deps2'"
proof (induction deps element fid fname and deps2 children fid2 fname2
       arbitrary: deps' and deps2' rule: search_elements_search_list.induct)
  case (1 deps element fid fname)
  from "1.prems" obtain deps1 children deps2 nested where
    n: "search_node deps element fid fname = Inr deps1" and
    c: "child_elements element = Inr children" and
    l1: "search_list deps1 children fid fname = Inr deps2" and
    ne: "nested_elements element = Inr nested" and
    l2: "search_list deps2 nested fid fname = Inr deps'"
    by (auto simp: and_then_def split: sum.splits)
  from n have "appended_mdm deps deps1" by (rule search_node_appended)
  moreover from "1.IH"(1) [OF n c l1] have "appended_mdm deps1 deps2" .
  moreover from "1.IH"(2) [OF n c l1 ne l2] have "appended_mdm deps2 deps'" .
  ultimately show ?case by (blast intro: appended_mdm_trans)
next
  case (4 deps child rest fid fname)
  from "4.prems" obtain deps1 where
    e: "search_elements deps child fid fname = Inr deps1" and
    l: "search_list deps1 rest fid fname = Inr deps2'"
    by (auto simp: and_then_def split: sum.splits)
  from "4.IH"(1) [OF e] "4.IH"(2) [OF e l] show ?case by (blast intro: appended_mdm_trans)
qed (auto simp: appended_mdm_refl)

text \<open>
  C5, as the script has it. The tag of a class name with a dot is its last dot-separated
  component in which every occurrence of \<open>SelectBox\<close> is replaced by \<open>selectBox\<close>;
  the tag of a class name without a dot is the class name itself. A class name whose
  last component is \<open>SelectBox\<close> has the tag \<open>selectBox\<close>. A node is evaluated as a
  candidate exactly when its tag is one of \<open>MDM_FIELD_TYPES\<close>, and every dependency that
  a walk appends has such a field type.
\<close>

theorem field_type_tag:
  "(CHR ''.'' \<in> set class_name \<longrightarrow>
      get_field_type class_name
        = py_replace ''SelectBox'' ''selectBox'' (last (py_split (CHR ''.'') class_name)))
   \<and> (CHR ''.'' \<notin> set class_name \<longrightarrow> get_field_type class_name = class_name)
   \<and> get_field_type (package @ ''.SelectBox'') = ''selectBox''
   \<and> (dict_get element ''className'' (JStr '''') = JStr class_name \<longrightarrow>
        search_node deps element fid fname =
          (if get_field_type class_name \<in> MDM_FIELD_TYPES
           then analyze_mdm_field deps element fid fname (get_field_type class_name)
           else Inr deps))
   \<and> (search_elements deps node fid fname = Inr deps' \<longrightarrow>
        (\<exists>new. deps' = deps @ new
           \<and> list_all (\<lambda>d. field_type d \<in> MDM_FIELD_TYPES) new))"
proof (intro conjI impI)
  show "get_field_type (package @ ''.SelectBox'') = ''selectBox''"
    by (rule get_field_type_SelectBox)
next
  assume "search_elements deps node fid fname = Inr deps'"
  then show "\<exists>new. deps' = deps @ new \<and> list_all (\<lambda>d. field_type d \<in> MDM_FIELD_TYPES) new"
    using search_appended(1) appended_mdm_iff by blast
qed (simp_all add: get_field_type_def search_node_def and_then_def)

lemma example_tags:
  "CHR ''.'' \<in> set ''org.joget.apps.form.lib.TextField''
   \<and> dict_get example_text_field ''className'' (JStr '''')
       = JStr ''org.joget.apps.form.lib.TextField''
   \<and> py_replace ''SelectBox'' ''selectBox''
        (last (py_split (CHR ''.'') ''org.joget.apps.form.lib.TextField'')) = ''TextField''
   \<and> ''TextField'' \<notin> MDM_FIELD_TYPES"
  by code_simp

theorem field_type_tag_witness:
  "get_field_type ''org.joget.apps.form.lib.TextField'' = ''TextField''
   \<and> get_field_type ''org.joget.apps.form.lib.SelectBox'' = ''selectBox''
   \<and> search_node [] example_text_field (JStr ''customer'') (JStr ''Customer'') = Inr []"
  using example_tags
    field_type_tag [of "''org.joget.apps.form.lib.TextField''" "''org.joget.apps.form.lib''"
      example_text_field "[]" "JStr ''customer''" "JStr ''Customer''" JNull "[]"]
  by simp

text \<open>
  The claim as stated gives a class name that ends in \<open>SelectBox\<close> the tag
  \<open>selectBox\<close>, and any other its last component. The replacement acts inside the
  component: \<open>MultiSelectBox\<close> becomes \<open>MultiselectBox\<close>, which is neither, and the
  node is not a candidate.
\<close>

theorem multi_select_box_tag:
  "get_field_type ''org.joget.plugin.enterprise.MultiSelectBox'' = ''MultiselectBox''
   \<and> get_field_type ''org.joget.plugin.enterprise.MultiSelectBox'' \<notin> MDM_FIELD_TYPES"
  by code_simp

subsection \<open>Statistics and totals\<close>

lemma sum_count_up: "sum_list (map snd (count_up k counts)) = Suc (sum_list (map snd counts))"
proof -
  have "sum_list (map snd (dict_set k (dict_get cs k 0 + n) cs)) = sum_list (map snd cs) + n"
    for cs :: "(string \<times> nat) list" and n
    by (induction cs) (auto simp: dict_get_def)
  from this [of counts 1] show ?thesis by (simp add: count_up_def)
qed

lemma foldl_stats_step:
  "sum_list (map snd (by_field_type (foldl stats_step st deps)))
     = sum_list (map snd (by_field_type st)) + length deps
   \<and> sum_list (map snd (by_options_source (foldl stats_step st deps)))
     = sum_list (map snd (by_options_source st)) + length deps
   \<and> ajax_cascade_count (foldl stats_step st deps)
     = ajax_cascade_count st + length (filter has_ajax_cascade deps)
   \<and> unique_forms_with_mdm (foldl stats_step st deps) = unique_forms_with_mdm st"
  by (induction deps arbitrary: st) (auto simp: stats_step_def sum_count_up)

lemma foldl_set_add:
  "distinct (map py_key acc) \<Longrightarrow>
     distinct (map py_key (foldl set_add acc vs))
     \<and> py_key ` set (foldl set_add acc vs) = py_key ` (set acc \<union> set vs)"
proof (induction vs arbitrary: acc)
  case Nil
  then show ?case by simp
next
  case (Cons v vs)
  have d: "distinct (map py_key (set_add acc v))"
    using Cons.prems by (auto simp: set_add_def)
  have s: "py_key ` set (set_add acc v) = py_key ` (set acc \<union> {v})"
    by (auto simp: set_add_def)
  from Cons.IH [OF d] s show ?case by (auto simp: image_Un)
qed

lemma py_set_length: "py_set vs = Inr members \<Longrightarrow> length members = card (py_key ` set vs)"
proof -
  assume "py_set vs = Inr members"
  then have m: "members = foldl set_add [] vs"
    by (auto simp: py_set_def split: if_splits)
  from foldl_set_add [of "[]" vs]
  have d: "distinct (map py_key members)" and i: "py_key ` set members = py_key ` set vs"
    by (simp_all add: m)
  have "length members = length (map py_key members)" by simp
  also have "\<dots> = card (set (map py_key members))" using d by (simp only: distinct_card)
  finally show ?thesis using i by simp
qed

lemma generate_statistics_consistent:
  assumes "generate_statistics deps = Inr stats"
  shows "sum_list (map snd (by_field_type stats)) = length deps"
    and "sum_list (map snd (by_options_source stats)) = length deps"
    and "ajax_cascade_count stats = length (filter has_ajax_cascade deps)"
    and "unique_forms_with_mdm stats = card (py_key ` form_id ` set deps)"
proof -
  from assms obtain members where
    m: "py_set (map form_id deps) = Inr members" and
    s: "stats = foldl stats_step
          \<lparr>by_field_type = [], by_options_source = [], ajax_cascade_count = 0,
            unique_forms_with_mdm = length members\<rparr> deps"
    by (auto simp: generate_statistics_def and_then_def split: sum.splits)
  note f = foldl_stats_step [of "\<lparr>by_field_type = [], by_options_source = [],
     ajax_cascade_count = 0, unique_forms_with_mdm = length members\<rparr>" deps]
  show "sum_list (map snd (by_field_type stats)) = length deps" using f s by simp
  show "sum_list (map snd (by_options_source stats)) = length deps" using f s by simp
  show "ajax_cascade_count stats = length (filter has_ajax_cascade deps)" using f s by simp
  show "unique_forms_with_mdm stats = card (py_key ` form_id ` set deps)"
    using f s py_set_length [OF m] by simp
qed

lemma analyze_report:
  assumes "analyze loads self load = Inr report"
  shows "total_mdm_fields report = length (dependencies report)"
    and "generate_statistics (dependencies report) = Inr (statistics report)"
  using assms
  by (auto simp: analyze_def and_then_def split: option.splits sum.splits json.splits prod.splits)

lemma py_key_no_bool: "\<forall>b. v \<noteq> JBool b \<Longrightarrow> py_key v = v"
  by (cases v) auto

lemma example_scan:
  "analyze example_loads new_analyzer (Some example_document) = Inr example_report"
  by code_simp

text \<open>
  C4. The report of a scan that completes has \<open>total_mdm_fields\<close> equal to the length
  of its \<open>dependencies\<close>.
\<close>

theorem total_mdm_fields_is_length:
  "analyze loads self load = Inr report \<Longrightarrow> total_mdm_fields report = length (dependencies report)"
  by (rule analyze_report(1))

theorem total_mdm_fields_is_length_witness:
  "analyze example_loads new_analyzer (Some example_document) = Inr example_report
   \<and> total_mdm_fields example_report = length (dependencies example_report)
   \<and> total_mdm_fields example_report = 3"
  using example_scan total_mdm_fields_is_length [OF example_scan]
  by (simp add: example_report_def)

text \<open>
  C10. In the report of a scan that completes, the counts of \<open>by_field_type\<close> add up
  to \<open>total_mdm_fields\<close>, and so do those of \<open>by_options_source\<close>;
  \<open>ajax_cascade_count\<close> is the number of dependencies with \<open>has_ajax_cascade\<close>, at
  most \<open>total_mdm_fields\<close>; \<open>unique_forms_with_mdm\<close> is the number of distinct
  \<open>form_id\<close> values among the dependencies, distinct as Python's \<open>set\<close> has it
  (\<open>True\<close> is 1 and \<open>False\<close> is 0 there), which is plain distinctness when no
  form id is a boolean.
\<close>

theorem statistics_consistent:
  assumes "analyze loads self load = Inr report"
  shows "sum_list (map snd (by_field_type (statistics report))) = total_mdm_fields report
    \<and> sum_list (map snd (by_options_source (statistics report))) = total_mdm_fields report
    \<and> ajax_cascade_count (statistics report)
        = length (filter has_ajax_cascade (dependencies report))
    \<and> ajax_cascade_count (statistics report) \<le> total_mdm_fields report
    \<and> unique_forms_with_mdm (statistics report)
        = card (py_key ` form_id ` set (dependencies report))
    \<and> (list_all (\<lambda>d. \<forall>b. form_id d \<noteq> JBool b) (dependencies report) \<longrightarrow>
         unique_forms_with_mdm (statistics report) = card (form_id ` set (dependencies report)))"
proof -
  note r = analyze_report [OF assms]
  note g = generate_statistics_consistent [OF r(2)]
  have "py_key ` form_id ` set (dependencies report) = form_id ` set (dependencies report)"
    if "list_all (\<lambda>d. \<forall>b. form_id d \<noteq> JBool b) (dependencies report)"
    using that by (force simp: list_all_iff py_key_no_bool image_iff)
  with r(1) g show ?thesis by simp
qed

theorem statistics_consistent_witness:
  "analyze example_loads new_analyzer (Some example_document) = Inr example_report
   \<and> sum_list (map snd (by_field_type (statistics example_report))) = 3
   \<and> sum_list (map snd (by_options_source (statistics example_report))) = 3
   \<and> ajax_cascade_count (statistics example_report) = 2
   \<and> unique_forms_with_mdm (statistics example_report)
        = card (form_id ` set (dependencies example_report))"
  using example_scan statistics_consistent [OF example_scan]
  by (simp add: example_report_def)

subsection \<open>Missing form list\<close>

text \<open>
  C7. For an application document that is an object with neither a \<open>forms\<close> nor a
  \<open>formDefinitionList\<close> key, \<open>_get_forms\<close> returns the empty list and appends one
  warning, and the scan of a new analyzer completes with \<open>total_forms = 0\<close> and that
  one warning. When \<open>forms\<close> is present its value is the form list; otherwise the
  value of \<open>formDefinitionList\<close> is, when present.
\<close>

theorem missing_forms_key:
  "(\<not> has_key app_data ''forms'' \<and> \<not> has_key app_data ''formDefinitionList'' \<longrightarrow>
      get_forms (self\<lparr>self_app_data := JObj app_data\<rparr>)
        = Inr (JArr [],
               self\<lparr>self_app_data := JObj app_data,
                    self_warnings := self_warnings self
                      @ [''Could not find forms in application structure'']\<rparr>)
      \<and> (\<exists>report. analyze loads new_analyzer (Some (JObj app_data)) = Inr report
            \<and> total_forms report = 0
            \<and> warnings report = [''Could not find forms in application structure'']
            \<and> dependencies report = []))
   \<and> (has_key app_data ''forms'' \<longrightarrow>
        get_forms (self\<lparr>self_app_data := JObj app_data\<rparr>)
          = Inr (dict_get app_data ''forms'' JNull, self\<lparr>self_app_data := JObj app_data\<rparr>))
   \<and> (\<not> has_key app_data ''forms'' \<and> has_key app_data ''formDefinitionList'' \<longrightarrow>
        get_forms (self\<lparr>self_app_data := JObj app_data\<rparr>)
          = Inr (dict_get app_data ''formDefinitionList'' JNull,
                 self\<lparr>self_app_data := JObj app_data\<rparr>))"
  by (simp add: get_forms_def analyze_def and_then_def new_analyzer_def Let_def
        generate_statistics_def py_set_def)

lemma example_no_forms:
  "\<not> has_key [(''appId'', JStr ''crm''), (''appName'', JStr ''Customers'')] ''forms''
   \<and> \<not> has_key [(''appId'', JStr ''crm''), (''appName'', JStr ''Customers'')]
         ''formDefinitionList''"
  by (simp add: has_key_def)

theorem missing_forms_key_witness:
  "\<exists>report. analyze example_loads new_analyzer
       (Some (JObj [(''appId'', JStr ''crm''), (''appName'', JStr ''Customers'')])) = Inr report
     \<and> total_forms report = 0
     \<and> warnings report = [''Could not find forms in application structure'']"
  using example_no_forms
    missing_forms_key [of "[(''appId'', JStr ''crm''), (''appName'', JStr ''Customers'')]"
      new_analyzer example_loads]
  by auto

end
